theory Spec2Isabelle
  imports Main
begin

section \<open>Python values shared by the modules\<close>

text \<open>
  Exceptions are values. Every function of the source that can raise returns
  \<open>error + 'a\<close>, with \<open>Inl\<close> the exception that propagates to the caller.
  Strings are byte lists, so \<open>to_bytes\<close> and \<open>to_unicode\<close> of the source are the
  identity and do not appear.
\<close>

datatype error =
    Exception string
  | KeyError string
  | ValueError string
  | IndexError string
  | TypeError string
  | AttributeError string
  | NotModelled string

text \<open>
  \<open>NotModelled\<close> is no exception of Python: it marks an input on which the model does
  not follow the source (a format specification, the \<open>repr\<close> of a dictionary), so that
  no result is invented there. No theorem below is about such an input.
\<close>

text \<open>\<open>str(x)\<close> of a value that is a string or \<open>None\<close>.\<close>

fun py_str :: "string option \<Rightarrow> string" where
  "py_str None = ''None''"
| "py_str (Some s) = s"

text \<open>The decimal rendering \<open>f"{n:d}"\<close> of an unbounded Python integer.\<close>

definition digit_char :: "nat \<Rightarrow> char" where
  "digit_char n = char_of (48 + n)"

fun dec_nat :: "nat \<Rightarrow> string" where
  "dec_nat n = (if n < 10 then [digit_char n] else dec_nat (n div 10) @ [digit_char (n mod 10)])"

declare dec_nat.simps [simp del]

definition format_d :: "int \<Rightarrow> string" where
  "format_d i = (if i < 0 then CHR ''-'' # dec_nat (nat (- i)) else dec_nat (nat i))"

text \<open>The slice \<open>s[:d]\<close>: a negative \<open>d\<close> counts from the end.\<close>

definition slice_to :: "int \<Rightarrow> 'a list \<Rightarrow> 'a list" where
  "slice_to d s = (if 0 \<le> d then take (nat d) s else take (length s - nat (- d)) s)"

text \<open>\<open>range(a, b)\<close>: the integers from \<open>a\<close> up to and excluding \<open>b\<close>.\<close>

definition py_range :: "int \<Rightarrow> int \<Rightarrow> int list" where
  "py_range a b = [a..b - 1]"

text \<open>
  Modelled from the spec: \<open>safe_compare\<close> of \<open>edumfa.lib.crypto\<close>, which is not among
  the source files. The spec calls it a constant-time comparison of the two values; its
  result is whether they are equal. An absent value (\<open>None\<close>) is equal to no string.
\<close>

definition safe_compare :: "string option \<Rightarrow> string option \<Rightarrow> bool" where
  "safe_compare a b = (case (a, b) of (Some x, Some y) \<Rightarrow> x = y | _ \<Rightarrow> False)"


section \<open>mOTP: \<open>edumfa/lib/tokens/mOTP.py\<close>\<close>

text \<open>
  The object \<open>mTimeOtp\<close>. \<open>secretObject\<close> and \<open>secPin\<close> hold what their \<open>getKey()\<close>
  returns; \<open>key\<close> and \<open>pin\<close> are the direct providers.
\<close>

record mTimeOtp =
  secretObject :: "string option"
  secPin :: "string option"
  key :: "string option"
  pin :: "string option"
  oldtime :: int
  digits :: int

text \<open>
  \<open>calcOtp\<close>. The digest \<open>md5(...).hexdigest()\<close> of \<open>hashlib\<close> is the parameter \<open>md5hex\<close>:
  the function from the hashed bytes to the 32 hexadecimal characters.
\<close>

definition calcOtp :: "(string \<Rightarrow> string) \<Rightarrow> mTimeOtp \<Rightarrow> int \<Rightarrow> string option \<Rightarrow> string option \<Rightarrow> string" where
  "calcOtp md5hex self counter key_arg pin_arg =
     (let pin' = (if pin_arg = None then pin self else pin_arg);
          key' = (if key_arg = None then key self else key_arg);
          vhash = format_d counter @ py_str key' @ py_str pin'
      in slice_to (digits self) (md5hex vhash))"

text \<open>
  The loop \<open>for i in range(...)\<close> of \<open>checkOtp\<close> with its \<open>break\<close>: \<open>res\<close> stays \<open>-1\<close>
  unless a candidate matches, and the first match ends the scan.
\<close>

fun checkOtp_loop :: "(int \<Rightarrow> string) \<Rightarrow> string option \<Rightarrow> int list \<Rightarrow> int" where
  "checkOtp_loop calc anOtpVal [] = - 1"
| "checkOtp_loop calc anOtpVal (i # rest) =
     (if safe_compare anOtpVal (Some (calc i)) then i else checkOtp_loop calc anOtpVal rest)"

text \<open>
  \<open>initTime\<close> is read from \<open>options\<close> when that is a dictionary; \<open>now\<close> is the clock
  \<open>time.time()\<close> in whole seconds, so \<open>int(time.time() // 10)\<close> is \<open>now div 10\<close>.
\<close>

definition get_initTime :: "(string \<rightharpoonup> int) option \<Rightarrow> int" where
  "get_initTime options =
     (case options of
        None \<Rightarrow> 0
      | Some d \<Rightarrow> (case d ''initTime'' of None \<Rightarrow> 0 | Some t \<Rightarrow> t))"

definition get_otime :: "(string \<rightharpoonup> int) option \<Rightarrow> int \<Rightarrow> int" where
  "get_otime options now =
     (let initTime = get_initTime options
      in if initTime = 0 then now div 10 else initTime)"

text \<open>
  The key and the pin: the direct ones when there is no \<open>secretObject\<close>, else
  \<open>secretObject.getKey()\<close> and \<open>secPin.getKey()\<close>; the latter raises when \<open>secPin\<close> is
  \<open>None\<close>.
\<close>

definition get_key_pin :: "mTimeOtp \<Rightarrow> error + (string option \<times> string option)" where
  "get_key_pin self =
     (case secretObject self of
        None \<Rightarrow> Inr (key self, pin self)
      | Some k \<Rightarrow>
          (case secPin self of
             None \<Rightarrow> Inl (AttributeError ''getKey'')
           | Some p \<Rightarrow> Inr (Some k, Some p)))"

definition checkOtp ::
  "(string \<Rightarrow> string) \<Rightarrow> mTimeOtp \<Rightarrow> string option \<Rightarrow> int \<Rightarrow> (string \<rightharpoonup> int) option \<Rightarrow> int
     \<Rightarrow> error + int" where
  "checkOtp md5hex self anOtpVal window options now =
     (let window' = window * 2;
          otime = get_otime options now
      in case get_key_pin self of
           Inl e \<Rightarrow> Inl e
         | Inr (k, p) \<Rightarrow>
             (let res = checkOtp_loop (\<lambda>i. calcOtp md5hex self i k p) anOtpVal
                          (py_range (otime - window') (otime + window'))
              in Inr (if res \<le> oldtime self then - 1 else res)))"

text \<open>The inverse of \<open>dec_nat\<close>, used to show that the rendering is injective.\<close>

definition nat_of_dec :: "string \<Rightarrow> nat" where
  "nat_of_dec s = foldl (\<lambda>a c. 10 * a + (of_char c - 48)) 0 s"


section \<open>The LUKS application: \<open>edumfa/lib/applications/luks.py\<close>\<close>

text \<open>
  \<open>str.lower()\<close>, \<open>str.upper()\<close> and \<open>str.startswith\<close>. Only the ASCII letters change
  case: the comparisons of the source are with \<open>"totp"\<close>, \<open>"GET"\<close>, \<open>"POST"\<close> and
  \<open>"DELETE"\<close>, and no character outside ASCII has one of their letters as its other case.
\<close>

definition lower_char :: "char \<Rightarrow> char" where
  "lower_char c = (let n = (of_char c :: nat) in if 65 \<le> n \<and> n \<le> 90 then char_of (n + 32) else c)"


definition lower :: "string \<Rightarrow> string" where
  "lower s = map lower_char s"


definition startswith :: "string \<Rightarrow> string \<Rightarrow> bool" where
  "startswith s p = (take (length p) s = p)"

text \<open>
  A token object as \<open>get_tokens\<close> returns it: its \<open>get_otp(challenge=..., do_truncation=False)\<close>
  gives a 4-tuple or raises.
\<close>

record luks_token =
  tok_get_otp :: "string \<Rightarrow> error + (int \<times> string \<times> string \<times> string)"

text \<open>
  What the module imports from files that are not among the sources: \<open>geturandom\<close>
  (\<open>edumfa.lib.crypto\<close>), \<open>hexlify_and_unicode\<close> (\<open>edumfa.lib.utils\<close>) and \<open>get_tokens\<close>
  (\<open>edumfa.lib.token\<close>, a database query that may raise).
\<close>

record luks_env =
  geturandom :: "nat \<Rightarrow> string"
  hexlify_and_unicode :: "string \<Rightarrow> string"
  get_tokens :: "string \<Rightarrow> bool \<Rightarrow> error + luks_token list"

definition get_authentication_item ::
  "luks_env \<Rightarrow> string \<Rightarrow> string \<Rightarrow> string option \<Rightarrow> (string \<rightharpoonup> string) option
     \<Rightarrow> (string \<rightharpoonup> string) option \<Rightarrow> error + (string \<rightharpoonup> string)" where
  "get_authentication_item env token_type serial challenge options filter_param =
     (let ret = Map.empty
      in if lower token_type = ''totp'' \<and> startswith serial ''UBOM'' then
           (let challenge_hex = (case challenge of
                                   None \<Rightarrow> hexlify_and_unicode env (geturandom env 32)
                                 | Some c \<Rightarrow> c);
                ret = ret(''challenge'' \<mapsto> challenge_hex)
            in case get_tokens env serial True of
                 Inl e \<Rightarrow> Inl e
               | Inr toks \<Rightarrow>
                   if length toks = 1 then
                     (case tok_get_otp (toks ! 0) challenge_hex of
                        Inl e \<Rightarrow> Inl e
                      | Inr (r, p, otp, c) \<Rightarrow> Inr (ret(''response'' \<mapsto> otp)))
                   else Inr ret)
         else Inr ret)"


section \<open>The federation handler: \<open>edumfa/lib/eventhandler/federationhandler.py\<close>\<close>

text \<open>The values a request parameter or a handler option holds.\<close>

datatype pyval = PNone | PBool bool | PInt int | PStr string


text \<open>
  \<open>is_true\<close> of \<open>edumfa.lib.utils\<close> is not among the source files: it is a parameter,
  the predicate that says which option values switch a flag on.
\<close>

record utils =
  is_true :: "pyval \<Rightarrow> bool"

text \<open>A parsed JSON document. No branch reads a number, so numbers are integers here.\<close>

datatype json = JNull | JBool bool | JNum int | JStr string | JArr "json list" | JObj "(string \<times> json) list"





















section \<open>The SMS token: \<open>edumfa/lib/tokens/smstoken.py\<close>\<close>

subsection \<open>Strings: \<open>str.replace\<close> and \<open>str.format\<close>\<close>

text \<open>
  \<open>s.replace(old, new)\<close> for a non-empty \<open>old\<close>: every occurrence, left to right,
  without overlap. The source calls it with \<open>"<otp>"\<close> and \<open>"<serial>"\<close> only.
\<close>

fun replace_str :: "string \<Rightarrow> string \<Rightarrow> string \<Rightarrow> string" where
  "replace_str old new [] = []"
| "replace_str old new (c # cs) =
     (if old \<noteq> [] \<and> take (length old) (c # cs) = old
      then new @ replace_str old new (drop (length old - 1) cs)
      else c # replace_str old new cs)"

text \<open>
  The values a tag of \<open>str.format\<close> is bound to: a string, \<open>None\<close>, a dictionary
  (the recipient) or another object (the token owner).
\<close>

datatype tagval = TStr string | TNone | TDict "(string \<times> tagval) list" | TObject

fun render_tag :: "tagval \<Rightarrow> error + string" where
  "render_tag (TStr s) = Inr s"
| "render_tag TNone = Inr ''None''"
| "render_tag (TDict d) = Inl (NotModelled ''repr of a dictionary'')"
| "render_tag TObject = Inl (NotModelled ''str of an object'')"

definition all_digits :: "string \<Rightarrow> bool" where
  "all_digits s = (s \<noteq> [] \<and> list_all (\<lambda>c. c \<in> set ''0123456789'') s)"

text \<open>
  The part of a replacement field after its name: a chain of \<open>[key]\<close> lookups. A key
  that is not a number is looked up as a string.
\<close>

function lookup_path :: "tagval \<Rightarrow> string \<Rightarrow> error + tagval" where
  "lookup_path v [] = Inr v"
| "lookup_path v (c # cs) =
     (if c = CHR ''['' then
        (if CHR '']'' \<notin> set cs then Inl (ValueError ''Missing ] in format string'')
         else if takeWhile (\<lambda>x. x \<noteq> CHR '']'') cs = [] then
           Inl (ValueError ''Empty attribute in format string'')
         else if all_digits (takeWhile (\<lambda>x. x \<noteq> CHR '']'') cs) then
           Inl (NotModelled ''integer index'')
         else
           (case v of
              TDict d \<Rightarrow>
                (case map_of d (takeWhile (\<lambda>x. x \<noteq> CHR '']'') cs) of
                   None \<Rightarrow> Inl (KeyError (takeWhile (\<lambda>x. x \<noteq> CHR '']'') cs))
                 | Some v' \<Rightarrow> lookup_path v' (drop 1 (dropWhile (\<lambda>x. x \<noteq> CHR '']'') cs)))
            | TStr s \<Rightarrow> Inl (TypeError ''string indices must be integers'')
            | TNone \<Rightarrow> Inl (TypeError ''not subscriptable'')
            | TObject \<Rightarrow> Inl (NotModelled ''subscript of an object'')))
      else Inl (NotModelled ''attribute access, conversion or format specification''))"
  by pat_completeness auto
termination
  by (relation "measure (\<lambda>(v, s). length s)")
     (auto simp: less_Suc_eq_le intro: order_trans [OF diff_le_self length_dropWhile_le])

text \<open>
  One replacement field \<open>{name[key]...}\<close>. There are no positional arguments, so an
  empty or numeric name raises \<open>IndexError\<close>; a name that is no keyword raises
  \<open>KeyError\<close>.
\<close>

definition format_field :: "(string \<times> tagval) list \<Rightarrow> string \<Rightarrow> error + string" where
  "format_field tags field =
     (let name = takeWhile (\<lambda>c. c \<notin> set ''[.!:'') field;
          rest = dropWhile (\<lambda>c. c \<notin> set ''[.!:'') field
      in if CHR ''{'' \<in> set field then Inl (NotModelled ''nested replacement field'')
         else if name = [] \<or> all_digits name then
           Inl (IndexError ''Replacement index out of range for positional args tuple'')
         else
           (case map_of tags name of
              None \<Rightarrow> Inl (KeyError name)
            | Some v \<Rightarrow>
                (case lookup_path v rest of
                   Inl e \<Rightarrow> Inl e
                 | Inr v' \<Rightarrow> render_tag v')))"

text \<open>
  The format string, left to right: \<open>{{\<close> and \<open>}}\<close> are the braces themselves, a
  \<open>{\<close> opens a replacement field that the next \<open>}\<close> closes, a single \<open>}\<close> raises.
\<close>

function py_format :: "(string \<times> tagval) list \<Rightarrow> string \<Rightarrow> error + string" where
  "py_format tags [] = Inr []"
| "py_format tags (c # cs) =
     (if c = CHR ''{'' then
        (if cs \<noteq> [] \<and> hd cs = CHR ''{'' then
           (case py_format tags (tl cs) of Inl e \<Rightarrow> Inl e | Inr t \<Rightarrow> Inr (CHR ''{'' # t))
         else if CHR ''}'' \<notin> set cs then Inl (ValueError ''expected } before end of string'')
         else
           (case format_field tags (takeWhile (\<lambda>x. x \<noteq> CHR ''}'') cs) of
              Inl e \<Rightarrow> Inl e
            | Inr s \<Rightarrow>
                (case py_format tags (drop 1 (dropWhile (\<lambda>x. x \<noteq> CHR ''}'') cs)) of
                   Inl e \<Rightarrow> Inl e
                 | Inr t \<Rightarrow> Inr (s @ t))))
      else if c = CHR ''}'' then
        (if cs \<noteq> [] \<and> hd cs = CHR ''}'' then
           (case py_format tags (tl cs) of Inl e \<Rightarrow> Inl e | Inr t \<Rightarrow> Inr (CHR ''}'' # t))
         else Inl (ValueError ''Single } encountered in format string''))
      else (case py_format tags cs of Inl e \<Rightarrow> Inl e | Inr t \<Rightarrow> Inr (c # t)))"
  by pat_completeness auto
termination
  by (relation "measure (\<lambda>(tags, s). length s)")
     (auto simp: less_Suc_eq_le intro: order_trans [OF diff_le_self length_dropWhile_le])

text \<open>\<open>message.format(otp=otp, **tags)\<close>: a tag named \<open>otp\<close> would be given twice.\<close>

definition str_format :: "string \<Rightarrow> (string \<times> tagval) list \<Rightarrow> string \<Rightarrow> error + string" where
  "str_format otp tags message =
     (if map_of tags ''otp'' \<noteq> None
      then Inl (TypeError ''got multiple values for keyword argument otp'')
      else py_format ((''otp'', TStr otp) # tags) message)"

subsection \<open>The token, the request options and the collaborators\<close>

record user =
  u_login :: string
  u_realm :: string
  u_info :: "string \<rightharpoonup> string"

text \<open>
  The dictionary \<open>options\<close>, by the keys the class reads. \<open>opt_user = None\<close> stands for
  a missing or false user object, \<open>opt_g\<close> says whether \<open>options["g"]\<close> is there, and
  \<open>opt_smstoken_post_check\<close> whether that key is set.
\<close>

record sms_options =
  opt_session :: "string option"
  opt_challenge :: "string option"
  opt_exception :: pyval
  opt_user :: "user option"
  opt_g :: bool
  opt_data :: "string option"
  opt_smstoken_post_check :: bool

definition empty_options :: sms_options where
  "empty_options =
     \<lparr>opt_session = None, opt_challenge = None, opt_exception = PNone, opt_user = None,
      opt_g = False, opt_data = None, opt_smstoken_post_check = False\<rparr>"

text \<open>A row of the table of challenges.\<close>

record challenge =
  ch_serial :: string
  ch_transaction_id :: string
  ch_challenge :: "string option"
  ch_data :: "string option"
  ch_session :: "string option"
  ch_validitytime :: int

text \<open>The token object \<open>self\<close> with its database row, and the table of challenges.\<close>

record sms_state =
  tok_serial :: string
  tok_active :: bool
  tok_locked :: bool
  tok_count :: int
  tok_info :: "string \<rightharpoonup> string"
  db_challenges :: "challenge list"

text \<open>What a gateway is sent to: nothing, an address, or a list of addresses.\<close>

datatype dest = DNone | DStr string | DList "string list"

text \<open>The SMS provider instance \<open>sms\<close>.\<close>

record provider =
  sms_send_to_uid :: bool
  sms_option_dict :: "string \<rightharpoonup> string"
  sms_config :: "string \<rightharpoonup> string"
  sms_submit_message :: "dest \<Rightarrow> string \<Rightarrow> error + bool"
  sms_submit_post_check :: "dest \<Rightarrow> string \<Rightarrow> error + bool"

text \<open>
  The collaborators of the class that are not among the source files: the configuration
  (\<open>get_from_config\<close>), the policies (\<open>get_action_values_from_options\<close>,
  \<open>Match.user(...).action_values\<close>, \<open>Match.user(...).policies\<close>), the parent class
  \<open>HotpTokenClass\<close> (\<open>get_otp()[2]\<close> and \<open>check_otp\<close>), the SMS providers, the user
  directory, and the library functions \<open>int\<close>, \<open>repr\<close> and \<open>datetime.now\<close>.
\<close>

record sms_env = utils +
  get_from_config :: "string \<Rightarrow> string option"
  py_int :: "string \<Rightarrow> int option"
  repr_exc :: "error \<Rightarrow> string"
  datetime_now :: int
  ENROLLMENT :: string
  CHALLENGETEXT :: string
  get_action_values_from_options :: "string \<Rightarrow> sms_options \<Rightarrow> string option"
  action_values :: "string \<Rightarrow> user option \<Rightarrow> error + string list"
  policies :: "string \<Rightarrow> user option \<Rightarrow> nat"
  get_otp :: "sms_state \<Rightarrow> error + string"
  hotp_check_otp ::
    "sms_state \<Rightarrow> string option \<Rightarrow> int option \<Rightarrow> int option \<Rightarrow> sms_options
       \<Rightarrow> (error + int) \<times> sms_state"
  create_sms_instance :: "string \<Rightarrow> error + provider"
  get_sms_provider_class :: "string \<Rightarrow> string \<Rightarrow> error + provider"
  load_config :: "provider \<Rightarrow> string \<Rightarrow> error + provider"
  get_user_phone :: "string \<Rightarrow> error + dest"
  create_transaction_id :: string

definition str_truthy :: "string option \<Rightarrow> bool" where
  "str_truthy v = (case v of None \<Rightarrow> False | Some s \<Rightarrow> s \<noteq> [])"

definition py_or :: "string option \<Rightarrow> string option \<Rightarrow> string option" where
  "py_or a b = (if str_truthy a then a else b)"

definition as_pyval :: "string option \<Rightarrow> pyval" where
  "as_pyval v = (case v of None \<Rightarrow> PNone | Some s \<Rightarrow> PStr s)"

text \<open>
  Modelled from the spec: \<open>create_tag_dict\<close> of \<open>edumfa.lib.utils\<close>, which is not among
  the source files. The spec says that the named tags are the recipient's given name and
  surname, the challenge text and the like, and that \<open>{recipient[givenname]}\<close> is a
  tag of a template: the tags are the keyword arguments of the call, under their names.
\<close>

definition create_tag_dict ::
  "string \<Rightarrow> user option \<Rightarrow> string \<Rightarrow> (string \<times> tagval) list \<Rightarrow> string option
     \<Rightarrow> (string \<times> tagval) list" where
  "create_tag_dict serial tokenowner tokentype recipient chal =
     [(''serial'', TStr serial),
      (''tokenowner'', (case tokenowner of None \<Rightarrow> TNone | Some u \<Rightarrow> TObject)),
      (''tokentype'', TStr tokentype),
      (''recipient'', TDict recipient),
      (''challenge'', (case chal of None \<Rightarrow> TNone | Some c \<Rightarrow> TStr c))]"

text \<open>
  Modelled from the spec: \<open>TokenClass.inc_otp_counter(counter, reset=False)\<close>, which is
  not among the source files. The spec says that the stored counter advances to the given
  value plus one.
\<close>

definition inc_otp_counter :: "sms_state \<Rightarrow> int \<Rightarrow> sms_state" where
  "inc_otp_counter st counter = st\<lparr>tok_count := counter + 1\<rparr>"

text \<open>
  Modelled from the spec: the constructor of \<open>Challenge\<close> (\<open>edumfa.models\<close>), which is not
  among the source files. The spec says that a transaction identifier is generated if none
  is supplied.
\<close>

definition Challenge ::
  "sms_env \<Rightarrow> string \<Rightarrow> string option \<Rightarrow> string option \<Rightarrow> string option \<Rightarrow> string option \<Rightarrow> int
     \<Rightarrow> challenge" where
  "Challenge env serial transaction_id chal dat sess validitytime =
     \<lparr>ch_serial = serial,
      ch_transaction_id = (case transaction_id of None \<Rightarrow> create_transaction_id env | Some t \<Rightarrow> t),
      ch_challenge = chal, ch_data = dat, ch_session = sess, ch_validitytime = validitytime\<rparr>"

text \<open>\<open>db_challenge.save()\<close>: the row joins the table.\<close>

definition save :: "sms_state \<Rightarrow> challenge \<Rightarrow> sms_state" where
  "save st c = st\<lparr>db_challenges := db_challenges st @ [c]\<rparr>"

subsection \<open>The methods\<close>

definition get_sms_timeout :: "sms_env \<Rightarrow> int" where
  "get_sms_timeout env =
     (case get_from_config env ''sms.providerTimeout'' of
        None \<Rightarrow> 5 * 60
      | Some v \<Rightarrow> (case py_int env v of None \<Rightarrow> 5 * 60 | Some n \<Rightarrow> n))"

definition SMSTEXT :: string where
  "SMSTEXT = ''smstext''"

definition SMSPOSTCHECKTEXT :: string where
  "SMSPOSTCHECKTEXT = ''smspostchecktext''"

definition SMSAUTO :: string where
  "SMSAUTO = ''smsautosend''"

definition get_sms_text :: "sms_env \<Rightarrow> sms_options \<Rightarrow> error + string" where
  "get_sms_text env options =
     (if opt_g options then
        (case action_values env
                (if opt_smstoken_post_check options then SMSPOSTCHECKTEXT else SMSTEXT)
                (opt_user options) of
           Inl e \<Rightarrow> Inl e
         | Inr messages \<Rightarrow> if length messages = 1 then Inr (messages ! 0) else Inr ''<otp>'')
      else Inr ''<otp>'')"

definition get_auto_sms :: "sms_env \<Rightarrow> sms_options \<Rightarrow> bool" where
  "get_auto_sms env options =
     (if opt_g options then policies env SMSAUTO (opt_user options) \<ge> 1 else False)"

definition info_get :: "user \<Rightarrow> string \<Rightarrow> tagval" where
  "info_get u k = (case u_info u k of None \<Rightarrow> TNone | Some s \<Rightarrow> TStr s)"

text \<open>The dictionary \<open>recipient\<close> that \<open>_send_sms\<close> passes to \<open>create_tag_dict\<close>.\<close>

definition recipient_of :: "user option \<Rightarrow> (string \<times> tagval) list" where
  "recipient_of User =
     [(''givenname'', (case User of None \<Rightarrow> TStr [] | Some u \<Rightarrow> info_get u ''givenname'')),
      (''surname'', (case User of None \<Rightarrow> TStr [] | Some u \<Rightarrow> info_get u ''surname''))]"

text \<open>
  The first part of \<open>_send_sms\<close>: the message. The two legacy placeholders are replaced,
  then the named tags are formatted.
\<close>

definition render_message :: "sms_env \<Rightarrow> sms_state \<Rightarrow> string \<Rightarrow> sms_options \<Rightarrow> error + string" where
  "render_message env st message options =
     (case get_otp env st of
        Inl e \<Rightarrow> Inl e
      | Inr otp \<Rightarrow>
          (let serial = tok_serial st;
               User = opt_user options;
               message1 = replace_str ''<otp>'' otp message;
               message2 = replace_str ''<serial>'' serial message1;
               tags = create_tag_dict serial User ''sms'' (recipient_of User) (opt_challenge options)
           in str_format otp tags message2))"

text \<open>\<open>smsProvider.rsplit(".", 1)\<close>, unpacked into two names: it raises without a dot.\<close>

definition rsplit_dot :: "string \<Rightarrow> (string \<times> string) option" where
  "rsplit_dot s =
     (if CHR ''.'' \<in> set s
      then Some (rev (drop 1 (dropWhile (\<lambda>c. c \<noteq> CHR ''.'') (rev s))),
                 rev (takeWhile (\<lambda>c. c \<noteq> CHR ''.'') (rev s)))
      else None)"

definition get_sms_provider :: "sms_env \<Rightarrow> error + (string \<times> string)" where
  "get_sms_provider env =
     (case rsplit_dot (case get_from_config env ''sms.provider'' of
                         None \<Rightarrow> ''edumfa.lib.smsprovider.HttpSMSProvider.HttpSMSProvider''
                       | Some v \<Rightarrow> v) of
        None \<Rightarrow> Inl (ValueError ''not enough values to unpack'')
      | Some pc \<Rightarrow> Inr pc)"

text \<open>
  The second part of \<open>_send_sms\<close>: the provider instance. Old style: the class named
  in the configuration, loaded and configured.
\<close>

definition load_old_style :: "sms_env \<Rightarrow> error + provider" where
  "load_old_style env =
     (case get_sms_provider env of
        Inl e \<Rightarrow> Inl e
      | Inr (SMSProvider, SMSProviderClass) \<Rightarrow>
          (case get_sms_provider_class env SMSProvider SMSProviderClass of
             Inl exc \<Rightarrow> Inl exc
           | Inr sms \<Rightarrow>
               (case load_config env sms
                       (case get_from_config env ''sms.providerConfig'' of
                          None \<Rightarrow> ''{}'' | Some c \<Rightarrow> c) of
                  Inl exc \<Rightarrow>
                    Inl (Exception (''Failed to load sms.providerConfig: '' @ repr_exc env exc))
                | Inr sms' \<Rightarrow> Inr sms')))"

text \<open>
  New style when the token or the system names a gateway identifier. The flag of the
  result says which style it was.
\<close>

definition load_provider :: "sms_env \<Rightarrow> sms_state \<Rightarrow> error + (provider \<times> bool)" where
  "load_provider env st =
     (let sms_gateway_identifier =
            py_or (tok_info st ''sms.identifier'') (get_from_config env ''sms.identifier'')
      in case (if str_truthy sms_gateway_identifier then sms_gateway_identifier else None) of
           Some ident \<Rightarrow>
             (case create_sms_instance env ident of
                Inl e \<Rightarrow> Inl e
              | Inr sms \<Rightarrow> Inr (sms, True))
         | None \<Rightarrow>
             (case load_old_style env of
                Inl e \<Rightarrow> Inl e
              | Inr sms \<Rightarrow> Inr (sms, False)))"

text \<open>The third part of \<open>_send_sms\<close>: the destination.\<close>

definition destination :: "sms_env \<Rightarrow> sms_state \<Rightarrow> provider \<Rightarrow> bool \<Rightarrow> sms_options \<Rightarrow> error + dest" where
  "destination env st sms new_style options =
     (if sms_send_to_uid sms then
        (let uid = (case opt_user options of None \<Rightarrow> None | Some u \<Rightarrow> Some (u_login u));
             uid = (if \<not> str_truthy uid then
                      (let uid_attribute_name =
                             (if new_style then sms_option_dict sms ''UID_TOKENINFO_ATTRIBUTE''
                              else sms_config sms ''UID_TOKENINFO_ATTRIBUTE'')
                       in case uid_attribute_name of
                            None \<Rightarrow> uid
                          | Some a \<Rightarrow> if a \<noteq> [] then tok_info st a else uid)
                    else uid)
         in Inr (case uid of None \<Rightarrow> DNone | Some s \<Rightarrow> DStr s))
      else if is_true env (as_pyval (tok_info st ''dynamic_phone'')) then
        (case get_user_phone env ''mobile'' of
           Inl e \<Rightarrow> Inl e
         | Inr (DList (p # ps)) \<Rightarrow> Inr (DStr p)
         | Inr phone \<Rightarrow> Inr phone)
      else Inr (case tok_info st ''phone'' of None \<Rightarrow> DNone | Some p \<Rightarrow> DStr p))"

text \<open>\<open>_send_sms\<close>: the result is \<open>(ret, message)\<close>, or what was raised on the way.\<close>

definition send_sms :: "sms_env \<Rightarrow> sms_state \<Rightarrow> string \<Rightarrow> sms_options \<Rightarrow> error + (bool \<times> string)" where
  "send_sms env st message options =
     (case render_message env st message options of
        Inl e \<Rightarrow> Inl e
      | Inr message' \<Rightarrow>
          (case load_provider env st of
             Inl e \<Rightarrow> Inl e
           | Inr (sms, new_style) \<Rightarrow>
               (case destination env st sms new_style options of
                  Inl e \<Rightarrow> Inl e
                | Inr dst \<Rightarrow>
                    (case (if opt_smstoken_post_check options
                           then sms_submit_post_check sms dst message'
                           else sms_submit_message sms dst message') of
                       Inl e \<Rightarrow> Inl e
                     | Inr ret \<Rightarrow> Inr (ret, message')))))"

text \<open>The reply dictionary: \<open>{"attributes": {"state": ..., "valid_until": ...}}\<close>.\<close>

record reply_dict =
  rd_state :: "string option"
  rd_valid_until :: int

definition info_message :: string where
  "info_message = ''The PIN was correct, but the SMS could not be sent!''"

text \<open>
  The lines \<open>db_challenge = Challenge(...); db_challenge.save(); transactionid =
  transactionid or db_challenge.transaction_id\<close> that end the \<open>try\<close> block.
\<close>

definition store_challenge ::
  "sms_env \<Rightarrow> sms_state \<Rightarrow> string option \<Rightarrow> sms_options \<Rightarrow> int \<Rightarrow> bool \<Rightarrow> string option
     \<Rightarrow> error option \<times> bool \<times> string option \<times> sms_state" where
  "store_challenge env st transactionid options validity success dat =
     (let db_challenge = Challenge env (tok_serial st) transactionid (opt_challenge options)
                           dat (opt_session options) validity
      in (None, success, py_or transactionid (Some (ch_transaction_id db_challenge)),
          save st db_challenge))"

text \<open>
  The \<open>try\<close> block of \<open>create_challenge\<close>. The result is the exception that left the
  block, if any, with \<open>success\<close>, \<open>transactionid\<close> and the state as they stand when the
  block is left.
\<close>

definition create_challenge_try ::
  "sms_env \<Rightarrow> sms_state \<Rightarrow> string option \<Rightarrow> sms_options \<Rightarrow> int
     \<Rightarrow> error option \<times> bool \<times> string option \<times> sms_state" where
  "create_challenge_try env st transactionid options validity =
     (if opt_session options \<noteq> Some (ENROLLMENT env) then
        (let st1 = inc_otp_counter st (tok_count st)
         in case get_sms_text env options of
              Inl e \<Rightarrow> (Some e, False, transactionid, st1)
            | Inr message_template \<Rightarrow>
                (case send_sms env st1 message_template options of
                   Inl e \<Rightarrow> (Some e, False, transactionid, st1)
                 | Inr (success, sent_message) \<Rightarrow>
                     if is_true env (as_pyval (get_from_config env ''sms.concurrent_challenges''))
                     then (case get_otp env st1 of
                             Inl e \<Rightarrow> (Some e, success, transactionid, st1)
                           | Inr otp \<Rightarrow>
                               store_challenge env st1 transactionid options validity success (Some otp))
                     else store_challenge env st1 transactionid options validity success None))
      else store_challenge env st transactionid options validity False None)"

text \<open>
  The challenge text: \<open>get_action_values_from_options(...) or _("Enter the OTP from the
  SMS:")\<close>.
\<close>

definition challenge_message :: "sms_env \<Rightarrow> sms_options \<Rightarrow> string" where
  "challenge_message env options =
     (case get_action_values_from_options env (''sms_'' @ CHALLENGETEXT env) options of
        None \<Rightarrow> ''Enter the OTP from the SMS:''
      | Some m \<Rightarrow> if m = [] then ''Enter the OTP from the SMS:'' else m)"

definition create_challenge ::
  "sms_env \<Rightarrow> sms_state \<Rightarrow> string option \<Rightarrow> sms_options option
     \<Rightarrow> (error + (bool \<times> string \<times> string option \<times> reply_dict)) \<times> sms_state" where
  "create_challenge env st transactionid options_arg =
     (let options = (case options_arg of None \<Rightarrow> empty_options | Some opts \<Rightarrow> opts);
          return_message = challenge_message env options;
          validity = get_sms_timeout env;
          reply = \<lparr>rd_state = transactionid, rd_valid_until = datetime_now env + validity\<rparr>
      in if tok_active st then
           (case create_challenge_try env st transactionid options validity of
              (None, success, transactionid', st') \<Rightarrow>
                (Inr (success, return_message, transactionid', reply), st')
            | (Some e, success, transactionid', st') \<Rightarrow>
                if is_true env (opt_exception options)
                then (Inl (Exception info_message), st')
                else (Inr (success, info_message, transactionid', reply), st'))
         else (Inr (False, return_message, transactionid, reply), st))"

text \<open>
  Modelled from the spec: the decorator \<open>check_token_locked\<close> of \<open>edumfa.lib.decorators\<close>,
  which is not among the source files. The spec gives a token a locked flag; the decorated
  method raises for a locked token and runs for any other.
\<close>

definition check_token_locked ::
  "sms_state \<Rightarrow> ((error + 'a) \<times> sms_state) \<Rightarrow> (error + 'a) \<times> sms_state" where
  "check_token_locked st body =
     (if tok_locked st
      then (Inl (Exception ''This action is not possible, since the token is locked''), st)
      else body)"

text \<open>
  The block under \<open>if ret >= 0:\<close> of \<open>check_otp\<close>: with the policy \<open>smsautosend\<close> a new
  SMS with the next OTP, otherwise the post-check message. Nothing catches what
  \<open>_get_sms_text\<close> or \<open>_send_sms\<close> raise here.
\<close>

definition post_check :: "sms_env \<Rightarrow> sms_state \<Rightarrow> int \<Rightarrow> sms_options \<Rightarrow> (error + unit) \<times> sms_state" where
  "post_check env st1 ret options =
     (if get_auto_sms env options then
        (case get_sms_text env options of
           Inl e \<Rightarrow> (Inl e, st1)
         | Inr message \<Rightarrow>
             (let st2 = inc_otp_counter st1 ret
              in case send_sms env st2 message options of
                   Inl e \<Rightarrow> (Inl e, st2)
                 | Inr sent \<Rightarrow> (Inr (), st2)))
      else
        (let options' = options\<lparr>opt_smstoken_post_check := True\<rparr>
         in case get_sms_text env options' of
              Inl e \<Rightarrow> (Inl e, st1)
            | Inr message \<Rightarrow>
                (case send_sms env st1 message options' of
                   Inl e \<Rightarrow> (Inl e, st1)
                 | Inr sent \<Rightarrow> (Inr (), st1))))"

definition check_otp ::
  "sms_env \<Rightarrow> sms_state \<Rightarrow> string option \<Rightarrow> int option \<Rightarrow> int option \<Rightarrow> sms_options option
     \<Rightarrow> (error + int) \<times> sms_state" where
  "check_otp env st anOtpVal counter window options_arg =
     check_token_locked st
       (let options = (case options_arg of None \<Rightarrow> empty_options | Some opts \<Rightarrow> opts)
        in case hotp_check_otp env st anOtpVal counter window options of
             (Inl e, st1) \<Rightarrow> (Inl e, st1)
           | (Inr ret0, st1) \<Rightarrow>
               (let ret = (if ret0 < 0
                              \<and> is_true env (as_pyval (get_from_config env ''sms.concurrent_challenges''))
                              \<and> safe_compare (opt_data options) anOtpVal
                           then 1 else ret0)
                in if ret \<ge> 0 then
                     (case post_check env st1 ret options of
                        (Inl e, st2) \<Rightarrow> (Inl e, st2)
                      | (Inr u, st2) \<Rightarrow> (Inr ret, st2))
                   else (Inr ret, st1)))"


section \<open>Concrete inputs\<close>

text \<open>
  A token object of mOTP whose digest function returns its input, so that the OTP of a
  slice is the decimal rendering of the slice; and collaborators for the other modules
  that answer with fixed values. The theorems are instantiated with them.
\<close>

definition example_motp :: "int \<Rightarrow> mTimeOtp" where
  "example_motp ot =
     \<lparr>secretObject = None, secPin = None, key = Some [], pin = Some [], oldtime = ot, digits = 6\<rparr>"

definition example_luks_env :: "luks_token list \<Rightarrow> luks_env" where
  "example_luks_env toks =
     \<lparr>geturandom = (\<lambda>n. replicate n (CHR ''a'')),
      hexlify_and_unicode = (\<lambda>s. concat (map (\<lambda>c. ''61'') s)),
      get_tokens = (\<lambda>serial active. Inr toks)\<rparr>"

definition example_is_true :: "pyval \<Rightarrow> bool" where
  "example_is_true v =
     (v = PInt 1 \<or> v = PStr ''1'' \<or> v = PBool True \<or> v = PStr ''True'' \<or> v = PStr ''true''
        \<or> v = PStr ''TRUE'')"



definition example_provider :: "(error + bool) \<Rightarrow> provider" where
  "example_provider r =
     \<lparr>sms_send_to_uid = False, sms_option_dict = Map.empty, sms_config = Map.empty,
      sms_submit_message = (\<lambda>d m. r), sms_submit_post_check = (\<lambda>d m. r)\<rparr>"

definition example_env :: "(error + bool) \<Rightarrow> sms_env" where
  "example_env r =
     \<lparr>is_true = example_is_true,
      get_from_config = [''sms.identifier'' \<mapsto> ''gw'', ''sms.concurrent_challenges'' \<mapsto> ''True''],
      py_int = (\<lambda>s. None),
      repr_exc = (\<lambda>e. []),
      datetime_now = 1000,
      ENROLLMENT = ''enrollment'',
      CHALLENGETEXT = ''challenge_text'',
      get_action_values_from_options = (\<lambda>a opts. None),
      action_values = (\<lambda>a u. Inr []),
      policies = (\<lambda>a u. 0),
      get_otp = (\<lambda>st. Inr ''123456''),
      hotp_check_otp = (\<lambda>st v c w opts. (Inr (- 1), st)),
      create_sms_instance = (\<lambda>i. Inr (example_provider r)),
      get_sms_provider_class = (\<lambda>p c. Inl (Exception ''no provider class'')),
      load_config = (\<lambda>p c. Inr p),
      get_user_phone = (\<lambda>k. Inr DNone),
      create_transaction_id = ''tx1''\<rparr>"

definition example_state :: sms_state where
  "example_state =
     \<lparr>tok_serial = ''PISM0001'', tok_active = True, tok_locked = False, tok_count = 57,
      tok_info = [''phone'' \<mapsto> ''+49123''], db_challenges = []\<rparr>"

definition example_options :: "pyval \<Rightarrow> sms_options" where
  "example_options x = empty_options\<lparr>opt_exception := x, opt_data := Some ''123456''\<rparr>"

section \<open>Properties of mOTP\<close>

subsection \<open>The decimal rendering is injective\<close>

lemma nat_of_dec_dec_nat: "nat_of_dec (dec_nat n) = n"
proof (induction n rule: dec_nat.induct)
  case (1 n)
  show ?case
  proof (cases "n < 10")
    case True
    then show ?thesis
      by (subst dec_nat.simps) (simp add: nat_of_dec_def digit_char_def)
  next
    case False
    then have "nat_of_dec (dec_nat (n div 10)) = n div 10"
      using "1.IH" by simp
    moreover have "n mod 10 < 10" by simp
    ultimately show ?thesis
      using False
      by (subst dec_nat.simps) (simp add: nat_of_dec_def digit_char_def)
  qed
qed

lemma digit_char_not_minus: "n < 10 \<Longrightarrow> digit_char n \<noteq> CHR ''-''"
proof
  assume n: "n < 10" and e: "digit_char n = CHR ''-''"
  have "(of_char (digit_char n) :: nat) = 48 + n"
    using n by (simp add: digit_char_def)
  moreover have "(of_char (CHR ''-'') :: nat) = 45" by simp
  ultimately show False using e by simp
qed

lemma dec_nat_not_Nil: "dec_nat n \<noteq> []"
  by (subst dec_nat.simps) simp

lemma dec_nat_not_minus: "hd (dec_nat n) \<noteq> CHR ''-''"
proof (induction n rule: dec_nat.induct)
  case (1 n)
  show ?case
  proof (cases "n < 10")
    case True
    then have "dec_nat n = [digit_char n]" by (subst dec_nat.simps) simp
    then show ?thesis using True digit_char_not_minus by simp
  next
    case False
    then have e: "dec_nat n = dec_nat (n div 10) @ [digit_char (n mod 10)]"
      by (subst dec_nat.simps) simp
    show ?thesis using "1.IH" False e dec_nat_not_Nil by simp
  qed
qed

lemma dec_nat_inj: "dec_nat m = dec_nat n \<Longrightarrow> m = n"
  by (metis nat_of_dec_dec_nat)

lemma format_d_inj: "format_d i = format_d j \<Longrightarrow> i = j"
proof -
  assume e: "format_d i = format_d j"
  have neg: "\<And>a b. CHR ''-'' # dec_nat a \<noteq> dec_nat b"
    using dec_nat_not_minus by (metis list.sel(1))
  show ?thesis
  proof (cases "i < 0")
    case True
    then have j: "j < 0" using e neg by (auto simp: format_d_def split: if_splits)
    then have "nat (- i) = nat (- j)" using e True dec_nat_inj by (simp add: format_d_def)
    then show ?thesis using True j by simp
  next
    case False
    then have j: "\<not> j < 0"
      using e neg [of "nat (- j)" "nat i"] by (auto simp: format_d_def split: if_splits)
    then have "nat i = nat j" using e False dec_nat_inj by (simp add: format_d_def)
    then show ?thesis using False j by simp
  qed
qed

lemma take_eq_short: "take n xs = ys \<Longrightarrow> length ys < n \<Longrightarrow> xs = ys"
  by (metis length_take min_def nat_neq_iff take_all_iff not_le)

subsection \<open>The scan\<close>

lemma checkOtp_loop_append:
  "\<forall>j\<in>set xs. \<not> safe_compare v (Some (calc j)) \<Longrightarrow>
   checkOtp_loop calc v (xs @ ys) = checkOtp_loop calc v ys"
  by (induction xs) auto

lemma checkOtp_loop_none:
  "\<forall>j\<in>set xs. \<not> safe_compare v (Some (calc j)) \<Longrightarrow> checkOtp_loop calc v xs = - 1"
  by (induction xs) auto

lemma checkOtp_loop_first:
  assumes "a \<le> i" "i < b" "safe_compare v (Some (calc i))"
    and "\<forall>j\<in>{a..<i}. \<not> safe_compare v (Some (calc j))"
  shows "checkOtp_loop calc v (py_range a b) = i"
proof -
  have "py_range a b = [a..i - 1] @ i # [i + 1..b - 1]"
    unfolding py_range_def using assms(1,2) by (intro upto_split3) auto
  moreover have "\<forall>j\<in>set [a..i - 1]. \<not> safe_compare v (Some (calc j))"
    using assms(4) by auto
  ultimately show ?thesis using assms(3) by (simp add: checkOtp_loop_append)
qed

lemma checkOtp_loop_only:
  assumes "\<And>i. safe_compare v (Some (calc i)) = (i = s)"
  shows "checkOtp_loop calc v (py_range a b) = (if a \<le> s \<and> s < b then s else - 1)"
proof (cases "a \<le> s \<and> s < b")
  case True
  then show ?thesis using assms by (simp add: checkOtp_loop_first)
next
  case False
  then have "\<forall>j\<in>set (py_range a b). \<not> safe_compare v (Some (calc j))"
    using assms by (auto simp: py_range_def)
  then have "checkOtp_loop calc v (py_range a b) = - 1" by (rule checkOtp_loop_none)
  then show ?thesis using False by auto
qed

text \<open>
  When exactly one slice \<open>s\<close> matches the submitted value, \<open>checkOtp\<close> returns it if and
  only if it lies in the half-open range from \<open>otime - 2 * window\<close> to
  \<open>otime + 2 * window\<close> and above \<open>oldtime\<close>.
\<close>

lemma checkOtp_only_match:
  assumes "get_key_pin self = Inr (k, p)"
    and "\<And>i. safe_compare anOtpVal (Some (calcOtp md5hex self i k p)) = (i = s)"
  shows "checkOtp md5hex self anOtpVal window options now =
           Inr (if get_otime options now - 2 * window \<le> s \<and> s < get_otime options now + 2 * window
                   \<and> oldtime self < s then s else - 1)"
  using assms(1)
    checkOtp_loop_only [of anOtpVal "\<lambda>i. calcOtp md5hex self i k p" s, OF assms(2)]
  by (auto simp: checkOtp_def Let_def mult.commute)

text \<open>The two ends of the range: the lower end is scanned, the upper end is not.\<close>

lemma checkOtp_lower_end:
  assumes "get_key_pin self = Inr (k, p)"
    and "\<And>i. safe_compare anOtpVal (Some (calcOtp md5hex self i k p)) = (i = s)"
    and "oldtime self < s" and "0 < window" and "s = get_otime options now - 2 * window"
  shows "checkOtp md5hex self anOtpVal window options now = Inr s"
  using checkOtp_only_match [OF assms(1,2), of window options now] assms(3,4,5) by simp

lemma checkOtp_upper_end:
  assumes "get_key_pin self = Inr (k, p)"
    and "\<And>i. safe_compare anOtpVal (Some (calcOtp md5hex self i k p)) = (i = s)"
    and "s = get_otime options now + 2 * window"
  shows "checkOtp md5hex self anOtpVal window options now = Inr (- 1)"
  using checkOtp_only_match [OF assms(1,2), of window options now] assms(3) by simp

text \<open>
  Whatever the digest function is: with a window parameter of 2 or more, the slice that is
  \<open>window + 1\<close> slices after the base slice is found.
\<close>

lemma checkOtp_beyond_window:
  assumes "get_key_pin self = Inr (k, p)"
    and "\<And>i. safe_compare anOtpVal (Some (calcOtp md5hex self i k p)) = (i = s)"
    and "oldtime self < s" and "2 \<le> window" and "s = get_otime options now + window + 1"
  shows "checkOtp md5hex self anOtpVal window options now = Inr s"
  using checkOtp_only_match [OF assms(1,2), of window options now] assms(3,4,5) by simp

subsection \<open>The example token\<close>

lemma example_motp_key_pin: "get_key_pin (example_motp ot) = Inr (Some [], Some [])"
  by (simp add: get_key_pin_def example_motp_def)

lemma example_motp_only_match:
  assumes "length (format_d s) < 6"
  shows "safe_compare (Some (format_d s))
           (Some (calcOtp (\<lambda>v. v) (example_motp ot) i (Some []) (Some []))) = (i = s)"
proof -
  have c: "calcOtp (\<lambda>v. v) (example_motp ot) i (Some []) (Some []) = take 6 (format_d i)"
    by (simp add: calcOtp_def example_motp_def slice_to_def)
  show ?thesis
  proof
    assume "safe_compare (Some (format_d s))
              (Some (calcOtp (\<lambda>v. v) (example_motp ot) i (Some []) (Some [])))"
    then have "take 6 (format_d i) = format_d s" using c by (simp add: safe_compare_def)
    then have "format_d i = format_d s" using assms by (rule take_eq_short)
    then show "i = s" by (rule format_d_inj)
  next
    assume "i = s"
    then show "safe_compare (Some (format_d s))
                 (Some (calcOtp (\<lambda>v. v) (example_motp ot) i (Some []) (Some [])))"
      using c assms by (simp add: safe_compare_def)
  qed
qed

lemma format_d_examples:
  "format_d 102 = ''102''" "format_d 103 = ''103''" "format_d 105 = ''105''"
  by code_simp+

lemma example_otime: "get_otime (Some [''initTime'' \<mapsto> 100]) t = 100"
  by (simp add: get_otime_def get_initTime_def)

subsection \<open>The claims\<close>




text \<open>
  C3. Let \<open>i\<close> be the slice the scan of \<open>checkOtp\<close> matches: it lies in the scanned range,
  its OTP equals the submitted value, and no earlier slice of the range matches. If
  \<open>i \<le> oldtime\<close> then \<open>checkOtp\<close> returns \<open>-1\<close> although the digest matches; it returns
  \<open>i\<close> only when \<open>i\<close> is strictly greater than \<open>oldtime\<close>.
\<close>

theorem checkOtp_replay:
  assumes "get_key_pin self = Inr (k, p)"
    and "get_otime options now - 2 * window \<le> i" and "i < get_otime options now + 2 * window"
    and "safe_compare anOtpVal (Some (calcOtp md5hex self i k p))"
    and "\<forall>j\<in>{get_otime options now - 2 * window..<i}.
           \<not> safe_compare anOtpVal (Some (calcOtp md5hex self j k p))"
  shows "checkOtp md5hex self anOtpVal window options now =
           Inr (if i \<le> oldtime self then - 1 else i)"
  using assms(1)
    checkOtp_loop_first [of "get_otime options now - 2 * window" i
      "get_otime options now + 2 * window" anOtpVal "\<lambda>i. calcOtp md5hex self i k p",
      OF assms(2,3,4,5)]
  by (auto simp: checkOtp_def Let_def mult.commute)

theorem checkOtp_replay_witness:
  "checkOtp (\<lambda>v. v) (example_motp 103) (Some ''103'') 2 (Some [''initTime'' \<mapsto> 100]) 0 = Inr (- 1)
   \<and> checkOtp (\<lambda>v. v) (example_motp 102) (Some ''103'') 2 (Some [''initTime'' \<mapsto> 100]) 0 = Inr 103"
proof -
  have o: "\<And>i ot. safe_compare (Some ''103'')
              (Some (calcOtp (\<lambda>v. v) (example_motp ot) i (Some []) (Some []))) = (i = 103)"
    using example_motp_only_match [of 103] format_d_examples by simp
  have r: "get_otime (Some [''initTime'' \<mapsto> 100]) 0 - 2 * 2 \<le> 103"
    "103 < get_otime (Some [''initTime'' \<mapsto> 100]) 0 + 2 * 2"
    by (simp_all add: example_otime)
  have a: "checkOtp (\<lambda>v. v) (example_motp 103) (Some ''103'') 2 (Some [''initTime'' \<mapsto> 100]) 0
             = Inr (if 103 \<le> oldtime (example_motp 103) then - 1 else 103)"
    by (rule checkOtp_replay [OF example_motp_key_pin r]) (simp_all add: o)
  have b: "checkOtp (\<lambda>v. v) (example_motp 102) (Some ''103'') 2 (Some [''initTime'' \<mapsto> 100]) 0
             = Inr (if 103 \<le> oldtime (example_motp 102) then - 1 else 103)"
    by (rule checkOtp_replay [OF example_motp_key_pin r]) (simp_all add: o)
  show ?thesis using a b by (simp add: example_motp_def)
qed

section \<open>Properties of the LUKS application\<close>

text \<open>
  C8. When the token type is not \<open>totp\<close> (whatever its case) or the serial does not start
  with \<open>UBOM\<close>, \<open>get_authentication_item\<close> returns the empty dictionary and raises
  nothing.
\<close>

theorem get_authentication_item_unsupported:
  assumes "lower token_type \<noteq> ''totp'' \<or> \<not> startswith serial ''UBOM''"
  shows "get_authentication_item env token_type serial challenge options filter_param
           = Inr Map.empty"
  using assms by (auto simp: get_authentication_item_def)

theorem get_authentication_item_unsupported_witness:
  "get_authentication_item (example_luks_env []) ''hotp'' ''UBOM1'' None None None = Inr Map.empty
   \<and> get_authentication_item (example_luks_env []) ''TOTP'' ''TOTP1'' (Some ''aa'') None None
       = Inr Map.empty"
proof -
  have "lower ''hotp'' \<noteq> ''totp'' \<or> \<not> startswith ''UBOM1'' ''UBOM''"
    by (simp add: lower_def lower_char_def)
  moreover have "lower ''TOTP'' \<noteq> ''totp'' \<or> \<not> startswith ''TOTP1'' ''UBOM''"
    by (simp add: startswith_def)
  ultimately show ?thesis
    using get_authentication_item_unsupported [of "''hotp''" "''UBOM1''"]
          get_authentication_item_unsupported [of "''TOTP''" "''TOTP1''"]
    by simp
qed

text \<open>
  C9. When the token type is \<open>totp\<close> and the serial starts with \<open>UBOM\<close>, but the number of
  active tokens found for the serial is not one, the returned dictionary has the key
  \<open>challenge\<close> and no other: it is neither the pair of challenge and response nor empty.
\<close>

theorem get_authentication_item_no_single_token:
  assumes "lower token_type = ''totp''" and "startswith serial ''UBOM''"
    and "get_tokens env serial True = Inr toks" and "length toks \<noteq> 1"
  shows "\<exists>ret. get_authentication_item env token_type serial challenge options filter_param = Inr ret
           \<and> ret ''challenge'' =
               Some (case challenge of
                       None \<Rightarrow> hexlify_and_unicode env (geturandom env 32) | Some c \<Rightarrow> c)
           \<and> ret ''response'' = None \<and> dom ret = {''challenge''}"
  using assms by (simp add: get_authentication_item_def)

theorem get_authentication_item_no_single_token_witness:
  "\<exists>ret. get_authentication_item (example_luks_env []) ''ToTp'' ''UBOM42'' (Some ''c0ffee'') None None
            = Inr ret
         \<and> ret ''challenge'' = Some ''c0ffee'' \<and> ret ''response'' = None
         \<and> dom ret = {''challenge''}"
proof -
  have "lower ''ToTp'' = ''totp''" by code_simp
  moreover have "startswith ''UBOM42'' ''UBOM''" by (simp add: startswith_def)
  moreover have "get_tokens (example_luks_env []) ''UBOM42'' True = Inr []"
    by (simp add: example_luks_env_def)
  moreover have "length ([] :: luks_token list) \<noteq> 1" by simp
  ultimately show ?thesis
    using get_authentication_item_no_single_token
            [of "''ToTp''" "''UBOM42''" "example_luks_env []" "[]" "Some ''c0ffee''" None None]
    by simp
qed


section \<open>Properties of the federation handler\<close>





section \<open>Properties of the SMS token\<close>

subsection \<open>Rendering the message\<close>

lemma replace_str_skip:
  "CHR ''<'' \<notin> set xs \<Longrightarrow>
   replace_str (CHR ''<'' # pat) new (xs @ ys) = xs @ replace_str (CHR ''<'' # pat) new ys"
  by (induction xs) auto

lemma py_format_skip:
  "CHR ''{'' \<notin> set xs \<Longrightarrow> CHR ''}'' \<notin> set xs \<Longrightarrow>
   py_format tags (xs @ ys) =
     (case py_format tags ys of Inl e \<Rightarrow> Inl e | Inr t \<Rightarrow> Inr (xs @ t))"
  by (induction xs) (auto split: sum.splits)

text \<open>A tag that is no keyword of the call raises \<open>KeyError\<close>: it is not left in the text.\<close>

lemma str_format_unknown_tag:
  assumes "map_of tags ''recipient'' = None" and "map_of tags ''otp'' = None"
  shows "str_format otp tags ''hi {recipient[givenname]}'' = Inl (KeyError ''recipient'')"
  using assms by (simp add: str_format_def format_field_def all_digits_def)

lemma render_template_otp:
  "replace_str ''<otp>'' otp ''Your code is <otp>, hi {recipient[givenname]}''
     = ''Your code is '' @ otp @ '', hi {recipient[givenname]}''"
  by simp

lemma render_template_serial:
  assumes "CHR ''<'' \<notin> set otp"
  shows "replace_str ''<serial>'' serial (''Your code is '' @ otp @ '', hi {recipient[givenname]}'')
     = ''Your code is '' @ otp @ '', hi {recipient[givenname]}''"
  using assms by (simp add: replace_str_skip)

lemma render_template_format:
  assumes "CHR ''{'' \<notin> set otp" and "CHR ''}'' \<notin> set otp"
  shows "str_format otp
           (create_tag_dict serial User ''sms'' [(''givenname'', TStr g), (''surname'', sn)] chal)
           (''Your code is '' @ otp @ '', hi {recipient[givenname]}'')
         = Inr (''Your code is '' @ otp @ '', hi '' @ g)"
  using assms
  by (simp add: str_format_def create_tag_dict_def py_format_skip format_field_def all_digits_def)

text \<open>
  C7. \<open>_send_sms\<close> renders the message by replacing \<open><otp>\<close>, then \<open><serial>\<close>, and then
  formatting the named tags. For an OTP without the characters \<open><\<close>, \<open>{\<close> and \<open>}\<close> (an OTP
  is a string of digits), the template \<open>Your code is <otp>, hi {recipient[givenname]}\<close>
  renders to the text with the OTP and the recipient's given name in their places, and
  nothing is raised; the given name is the empty string when there is no user object or
  when the user's given name is empty.
\<close>

theorem render_message_template:
  assumes "get_otp env st = Inr otp"
    and "CHR ''<'' \<notin> set otp" and "CHR ''{'' \<notin> set otp" and "CHR ''}'' \<notin> set otp"
    and "opt_user options = None \<and> g = [] \<or>
         (\<exists>u. opt_user options = Some u \<and> u_info u ''givenname'' = Some g)"
  shows "render_message env st message options =
           str_format otp
             (create_tag_dict (tok_serial st) (opt_user options) ''sms''
                (recipient_of (opt_user options)) (opt_challenge options))
             (replace_str ''<serial>'' (tok_serial st) (replace_str ''<otp>'' otp message))
       \<and> render_message env st ''Your code is <otp>, hi {recipient[givenname]}'' options =
           Inr (''Your code is '' @ otp @ '', hi '' @ g)"
proof
  show "render_message env st message options =
           str_format otp
             (create_tag_dict (tok_serial st) (opt_user options) ''sms''
                (recipient_of (opt_user options)) (opt_challenge options))
             (replace_str ''<serial>'' (tok_serial st) (replace_str ''<otp>'' otp message))"
    using assms(1) by (simp add: render_message_def Let_def)
next
  obtain sn where r: "recipient_of (opt_user options) = [(''givenname'', TStr g), (''surname'', sn)]"
    using assms(5) by (auto simp: recipient_of_def info_get_def)
  show "render_message env st ''Your code is <otp>, hi {recipient[givenname]}'' options =
           Inr (''Your code is '' @ otp @ '', hi '' @ g)"
    unfolding render_message_def Let_def
    using assms(1) render_template_serial [OF assms(2)] render_template_format [OF assms(3,4)]
    by (simp add: render_template_otp r del: replace_str.simps py_format.simps)
qed

theorem render_message_template_witness:
  "render_message (example_env (Inr True)) example_state
     ''Your code is <otp>, hi {recipient[givenname]}'' (example_options PNone)
     = Inr ''Your code is 123456, hi ''
   \<and> render_message (example_env (Inr True)) example_state
     ''Your code is <otp>, hi {recipient[givenname]}''
     ((example_options PNone)\<lparr>opt_user :=
         Some \<lparr>u_login = ''cornelius'', u_realm = ''r1'', u_info = [''givenname'' \<mapsto> []]\<rparr>\<rparr>)
     = Inr ''Your code is 123456, hi ''"
proof -
  have o: "get_otp (example_env (Inr True)) example_state = Inr ''123456''"
    by (simp add: example_env_def)
  have c: "CHR ''<'' \<notin> set ''123456''" "CHR ''{'' \<notin> set ''123456''" "CHR ''}'' \<notin> set ''123456''"
    by simp_all
  have u1: "opt_user (example_options PNone) = None \<and> ([] :: string) = [] \<or>
            (\<exists>u. opt_user (example_options PNone) = Some u \<and> u_info u ''givenname'' = Some [])"
    by (simp add: example_options_def empty_options_def)
  have u2: "opt_user ((example_options PNone)\<lparr>opt_user :=
              Some \<lparr>u_login = ''cornelius'', u_realm = ''r1'', u_info = [''givenname'' \<mapsto> []]\<rparr>\<rparr>) = None
              \<and> ([] :: string) = [] \<or>
            (\<exists>u. opt_user ((example_options PNone)\<lparr>opt_user :=
              Some \<lparr>u_login = ''cornelius'', u_realm = ''r1'', u_info = [''givenname'' \<mapsto> []]\<rparr>\<rparr>) = Some u
              \<and> u_info u ''givenname'' = Some [])"
    by simp
  show ?thesis
    using render_message_template [OF o c u1, THEN conjunct2]
          render_message_template [OF o c u2, THEN conjunct2]
    by simp
qed

subsection \<open>The example collaborators\<close>

lemma example_get_sms_text: "opt_g opts = False \<Longrightarrow> get_sms_text (example_env r) opts = Inr ''<otp>''"
  by (simp add: get_sms_text_def)

lemma example_send_sms:
  "send_sms (example_env r) (example_state\<lparr>tok_count := n\<rparr>) ''<otp>'' opts =
     (case r of Inl e \<Rightarrow> Inl e | Inr b \<Rightarrow> Inr (b, ''123456''))"
  by (simp add: send_sms_def render_message_def load_provider_def destination_def
        example_env_def example_state_def example_provider_def str_format_def
        create_tag_dict_def recipient_of_def py_or_def str_truthy_def as_pyval_def
        example_is_true_def Let_def split: sum.splits)

lemma example_state_count: "example_state\<lparr>tok_count := 57\<rparr> = example_state"
  by (simp add: example_state_def)

lemma example_concurrent:
  "is_true (example_env r) (as_pyval (get_from_config (example_env r) ''sms.concurrent_challenges''))"
  by (simp add: example_env_def as_pyval_def example_is_true_def)

lemma example_timeout: "get_sms_timeout (example_env r) = 300"
  by (simp add: get_sms_timeout_def example_env_def)

subsection \<open>\<open>create_challenge\<close>\<close>

lemma create_challenge_try_raises:
  assumes "opt_session options \<noteq> Some (ENROLLMENT env)"
    and "get_sms_text env options = Inr tmpl"
    and "send_sms env (inc_otp_counter st (tok_count st)) tmpl options = Inl e"
  shows "create_challenge_try env st tid options validity =
           (Some e, False, tid, inc_otp_counter st (tok_count st))"
  using assms by (simp add: create_challenge_try_def Let_def)

lemma create_challenge_try_returns:
  assumes "opt_session options \<noteq> Some (ENROLLMENT env)"
    and "get_sms_text env options = Inr tmpl"
    and "send_sms env (inc_otp_counter st (tok_count st)) tmpl options = Inr (success, sent)"
    and "if is_true env (as_pyval (get_from_config env ''sms.concurrent_challenges''))
         then get_otp env (inc_otp_counter st (tok_count st)) = Inr otp \<and> dat = Some otp
         else dat = None"
  shows "create_challenge_try env st tid options validity =
           store_challenge env (inc_otp_counter st (tok_count st)) tid options validity success dat"
  using assms by (auto simp: create_challenge_try_def Let_def split: if_splits)

text \<open>\<open>options = options or {}\<close>: no options are empty options.\<close>

lemma create_challenge_None:
  "create_challenge env st tid None = create_challenge env st tid (Some empty_options)"
  by (simp add: create_challenge_def)

lemma check_otp_None:
  "check_otp env st v counter window None = check_otp env st v counter window (Some empty_options)"
  by (simp add: check_otp_def)

lemma create_challenge_raises:
  assumes "tok_active st"
    and "opt_session options \<noteq> Some (ENROLLMENT env)"
    and "get_sms_text env options = Inr tmpl"
    and "send_sms env (inc_otp_counter st (tok_count st)) tmpl options = Inl e"
  shows "create_challenge env st tid (Some options) =
           (if is_true env (opt_exception options) then Inl (Exception info_message)
            else Inr (False, info_message, tid,
                      \<lparr>rd_state = tid, rd_valid_until = datetime_now env + get_sms_timeout env\<rparr>),
            inc_otp_counter st (tok_count st))"
  using assms(1) create_challenge_try_raises [OF assms(2,3,4)]
  by (simp add: create_challenge_def Let_def)

lemma create_challenge_returns:
  assumes "tok_active st"
    and "opt_session options \<noteq> Some (ENROLLMENT env)"
    and "get_sms_text env options = Inr tmpl"
    and "send_sms env (inc_otp_counter st (tok_count st)) tmpl options = Inr (success, sent)"
    and "if is_true env (as_pyval (get_from_config env ''sms.concurrent_challenges''))
         then get_otp env (inc_otp_counter st (tok_count st)) = Inr otp \<and> dat = Some otp
         else dat = None"
  shows "create_challenge env st tid (Some options) =
           (Inr (success, challenge_message env options,
                 py_or tid (Some (ch_transaction_id
                   (Challenge env (tok_serial st) tid (opt_challenge options) dat
                      (opt_session options) (get_sms_timeout env)))),
                 \<lparr>rd_state = tid, rd_valid_until = datetime_now env + get_sms_timeout env\<rparr>),
            save (inc_otp_counter st (tok_count st))
              (Challenge env (tok_serial st) tid (opt_challenge options) dat
                 (opt_session options) (get_sms_timeout env)))"
  using assms(1) create_challenge_try_returns [OF assms(2,3,4,5)]
  by (simp add: create_challenge_def Let_def store_challenge_def inc_otp_counter_def)

lemma example_inc: "inc_otp_counter example_state (tok_count example_state) = example_state\<lparr>tok_count := 58\<rparr>"
  by (simp add: inc_otp_counter_def example_state_def)

lemma example_session: "opt_session (example_options x) \<noteq> Some (ENROLLMENT (example_env r))"
  by (simp add: example_options_def empty_options_def)

lemma example_g: "opt_g (example_options x) = False"
  by (simp add: example_options_def empty_options_def)

lemma example_active: "tok_active example_state"
  by (simp add: example_state_def)

text \<open>
  C1, as amended. For an active token, outside an enrollment session, whose delivery
  raises during sending: \<open>create_challenge\<close> saves no challenge row (the row is built and
  saved after the send, in the same \<open>try\<close> block), the rows already in the table stay as
  they are, and, unless the caller asked for an exception, the failure is returned as the
  message \<open>The PIN was correct, but the SMS could not be sent!\<close> with
  \<open>success = False\<close>. When the send returns, also with the result \<open>False\<close>, the
  challenge row is saved.
\<close>

theorem create_challenge_delivery_raises:
  assumes "tok_active st"
    and "opt_session options \<noteq> Some (ENROLLMENT env)"
    and "get_sms_text env options = Inr tmpl"
  shows "(send_sms env (inc_otp_counter st (tok_count st)) tmpl options = Inl e \<longrightarrow>
            db_challenges (snd (create_challenge env st tid (Some options))) = db_challenges st
          \<and> (\<not> is_true env (opt_exception options) \<longrightarrow>
               fst (create_challenge env st tid (Some options)) =
                 Inr (False, info_message, tid,
                      \<lparr>rd_state = tid, rd_valid_until = datetime_now env + get_sms_timeout env\<rparr>)))
       \<and> (send_sms env (inc_otp_counter st (tok_count st)) tmpl options = Inr (success, sent)
          \<and> (if is_true env (as_pyval (get_from_config env ''sms.concurrent_challenges''))
              then get_otp env (inc_otp_counter st (tok_count st)) = Inr otp \<and> dat = Some otp
              else dat = None) \<longrightarrow>
            db_challenges (snd (create_challenge env st tid (Some options))) =
              db_challenges st @
                [Challenge env (tok_serial st) tid (opt_challenge options) dat
                   (opt_session options) (get_sms_timeout env)]
          \<and> fst (create_challenge env st tid (Some options)) =
              Inr (success, challenge_message env options,
                   py_or tid (Some (ch_transaction_id
                     (Challenge env (tok_serial st) tid (opt_challenge options) dat
                        (opt_session options) (get_sms_timeout env)))),
                   \<lparr>rd_state = tid, rd_valid_until = datetime_now env + get_sms_timeout env\<rparr>))"
proof (intro conjI impI)
  assume f: "send_sms env (inc_otp_counter st (tok_count st)) tmpl options = Inl e"
  note r = create_challenge_raises [OF assms f, where tid = tid]
  show "db_challenges (snd (create_challenge env st tid (Some options))) = db_challenges st"
    by (simp add: r inc_otp_counter_def)
  assume "\<not> is_true env (opt_exception options)"
  then show "fst (create_challenge env st tid (Some options)) =
                 Inr (False, info_message, tid,
                      \<lparr>rd_state = tid, rd_valid_until = datetime_now env + get_sms_timeout env\<rparr>)"
    by (simp add: r)
next
  assume s: "send_sms env (inc_otp_counter st (tok_count st)) tmpl options = Inr (success, sent)
          \<and> (if is_true env (as_pyval (get_from_config env ''sms.concurrent_challenges''))
              then get_otp env (inc_otp_counter st (tok_count st)) = Inr otp \<and> dat = Some otp
              else dat = None)"
  note r = create_challenge_returns [OF assms conjunct1 [OF s] conjunct2 [OF s], where tid = tid]
  show "db_challenges (snd (create_challenge env st tid (Some options))) =
              db_challenges st @
                [Challenge env (tok_serial st) tid (opt_challenge options) dat
                   (opt_session options) (get_sms_timeout env)]"
    by (simp add: r save_def inc_otp_counter_def)
  show "fst (create_challenge env st tid (Some options)) =
              Inr (success, challenge_message env options,
                   py_or tid (Some (ch_transaction_id
                     (Challenge env (tok_serial st) tid (opt_challenge options) dat
                        (opt_session options) (get_sms_timeout env)))),
                   \<lparr>rd_state = tid, rd_valid_until = datetime_now env + get_sms_timeout env\<rparr>)"
    by (simp add: r)
qed

theorem create_challenge_delivery_raises_witness:
  "db_challenges (snd (create_challenge (example_env (Inl (Exception ''gateway down'')))
      example_state None (Some (example_options PNone)))) = []
   \<and> fst (create_challenge (example_env (Inl (Exception ''gateway down'')))
      example_state None (Some (example_options PNone)))
       = Inr (False, info_message, None, \<lparr>rd_state = None, rd_valid_until = 1300\<rparr>)
   \<and> db_challenges (snd (create_challenge (example_env (Inr False))
      example_state None (Some (example_options PNone))))
       = [\<lparr>ch_serial = ''PISM0001'', ch_transaction_id = ''tx1'', ch_challenge = None,
           ch_data = Some ''123456'', ch_session = None, ch_validitytime = 300\<rparr>]
   \<and> fst (create_challenge (example_env (Inr False))
      example_state None (Some (example_options PNone)))
       = Inr (False, ''Enter the OTP from the SMS:'', Some ''tx1'',
              \<lparr>rd_state = None, rd_valid_until = 1300\<rparr>)"
proof -
  have t: "\<And>r. get_sms_text (example_env r) (example_options PNone) = Inr ''<otp>''"
    by (simp add: example_get_sms_text example_g)
  have a: "send_sms (example_env (Inl (Exception ''gateway down'')))
             (inc_otp_counter example_state (tok_count example_state)) ''<otp>''
             (example_options PNone) = Inl (Exception ''gateway down'')"
    by (simp add: example_inc example_send_sms)
  have b: "send_sms (example_env (Inr False))
             (inc_otp_counter example_state (tok_count example_state)) ''<otp>''
             (example_options PNone) = Inr (False, ''123456'')"
    by (simp add: example_inc example_send_sms)
  have c: "if is_true (example_env (Inr False))
                (as_pyval (get_from_config (example_env (Inr False)) ''sms.concurrent_challenges''))
           then get_otp (example_env (Inr False))
                  (inc_otp_counter example_state (tok_count example_state)) = Inr ''123456''
                \<and> Some ''123456'' = Some ''123456''
           else Some ''123456'' = None"
    by (simp add: example_concurrent) (simp add: example_env_def)
  have n: "\<not> is_true (example_env (Inl (Exception ''gateway down'')))
               (opt_exception (example_options PNone))"
    by (simp add: example_env_def example_options_def example_is_true_def)
  have m: "challenge_message (example_env (Inr False)) (example_options PNone)
             = ''Enter the OTP from the SMS:''"
    by (simp add: challenge_message_def example_env_def)
  have d: "datetime_now (example_env r) = 1000" for r
    by (simp add: example_env_def)
  have o: "opt_challenge (example_options PNone) = None" "opt_session (example_options PNone) = None"
    by (simp_all add: example_options_def empty_options_def)
  have st: "db_challenges example_state = []" "tok_count example_state = 57"
    "tok_serial example_state = ''PISM0001''"
    by (simp_all add: example_state_def)
  have ch: "Challenge (example_env (Inr False)) ''PISM0001'' None None (Some ''123456'') None 300
              = \<lparr>ch_serial = ''PISM0001'', ch_transaction_id = ''tx1'', ch_challenge = None,
                 ch_data = Some ''123456'', ch_session = None, ch_validitytime = 300\<rparr>"
    by (simp add: Challenge_def example_env_def)
  show ?thesis
    using create_challenge_delivery_raises [OF example_active example_session t,
            where e = "Exception ''gateway down''" and tid = None] a n
          create_challenge_delivery_raises [OF example_active example_session t,
            where success = False and sent = "''123456''" and tid = None
              and otp = "''123456''" and dat = "Some ''123456''"] b c
    by (simp add: st d o m ch example_timeout py_or_def str_truthy_def)
qed

text \<open>
  C1 as the spec states it fails: the gateway raises, and the table of challenges has no
  row after \<open>create_challenge\<close>, which returns the message and \<open>success = False\<close>.
\<close>

theorem create_challenge_delivery_raises_counterexample:
  "tok_active example_state
   \<and> send_sms (example_env (Inl (Exception ''gateway down'')))
       (inc_otp_counter example_state (tok_count example_state)) ''<otp>''
       (example_options (PStr ''0'')) = Inl (Exception ''gateway down'')
   \<and> create_challenge (example_env (Inl (Exception ''gateway down'')))
       example_state (Some ''t1'') (Some (example_options (PStr ''0'')))
     = (Inr (False, info_message, Some ''t1'', \<lparr>rd_state = Some ''t1'', rd_valid_until = 1300\<rparr>),
        example_state\<lparr>tok_count := 58\<rparr>)
   \<and> db_challenges (example_state\<lparr>tok_count := 58\<rparr>) = []"
proof -
  have t: "get_sms_text (example_env (Inl (Exception ''gateway down''))) (example_options (PStr ''0''))
             = Inr ''<otp>''"
    by (simp add: example_get_sms_text example_g)
  have a: "send_sms (example_env (Inl (Exception ''gateway down'')))
             (inc_otp_counter example_state (tok_count example_state)) ''<otp>''
             (example_options (PStr ''0'')) = Inl (Exception ''gateway down'')"
    by (simp add: example_inc example_send_sms)
  have n: "\<not> is_true (example_env (Inl (Exception ''gateway down'')))
               (opt_exception (example_options (PStr ''0'')))"
    by (simp add: example_env_def example_options_def example_is_true_def)
  have d: "datetime_now (example_env (Inl (Exception ''gateway down''))) = 1000"
    by (simp add: example_env_def)
  show ?thesis
    using create_challenge_raises [OF example_active example_session t a, where tid = "Some ''t1''"] n a
    by (simp add: example_active example_inc d example_timeout) (simp add: example_state_def)
qed



subsection \<open>\<open>check_otp\<close>\<close>

lemma check_otp_fallback:
  assumes "\<not> tok_locked st"
    and "hotp_check_otp env st (Some v) counter window options = (Inr res, st')"
    and "res < 0"
    and "is_true env (as_pyval (get_from_config env ''sms.concurrent_challenges''))"
    and "opt_data options = Some v"
  shows "check_otp env st (Some v) counter window (Some options) =
           (case post_check env st' 1 options of
              (Inl e, st2) \<Rightarrow> (Inl e, st2)
            | (Inr u, st2) \<Rightarrow> (Inr 1, st2))"
  using assms by (simp add: check_otp_def check_token_locked_def safe_compare_def Let_def)

lemma example_post_check_count:
  assumes "opt_g opts = False"
  shows "post_check (example_env r) (example_state\<lparr>tok_count := n\<rparr>) ret opts =
           ((case r of Inl e \<Rightarrow> Inl e | Inr b \<Rightarrow> Inr ()), example_state\<lparr>tok_count := n\<rparr>)"
  using assms example_send_sms [of r n "opts\<lparr>opt_smstoken_post_check := True\<rparr>"]
  by (simp add: post_check_def get_auto_sms_def Let_def example_get_sms_text split: sum.splits)

lemma example_post_check:
  assumes "opt_g opts = False"
  shows "post_check (example_env r) example_state ret opts =
           ((case r of Inl e \<Rightarrow> Inl e | Inr b \<Rightarrow> Inr ()), example_state)"
  using example_post_check_count [OF assms, of r 57 ret] by (simp add: example_state_count)

lemma example_hotp:
  "hotp_check_otp (example_env r) st v c w opts = (Inr (- 1), st)"
  by (simp add: example_env_def)

lemma example_data: "opt_data (example_options x) = Some ''123456''"
  by (simp add: example_options_def)

lemma example_unlocked: "\<not> tok_locked example_state"
  by (simp add: example_state_def)

text \<open>
  C4, as amended. When the HOTP check returns a negative result, the configuration
  \<open>sms.concurrent_challenges\<close> is on and the data stored with the challenge equals the
  submitted OTP, \<open>check_otp\<close> of an unlocked token does not return not-found: it returns
  1, unless the message it then sends (the new SMS under the policy \<open>smsautosend\<close>, the
  post-check message otherwise) raises, and then that exception propagates.
\<close>

theorem check_otp_concurrent_challenge:
  assumes "\<not> tok_locked st"
    and "hotp_check_otp env st (Some v) counter window options = (Inr res, st')"
    and "res < 0"
    and "is_true env (as_pyval (get_from_config env ''sms.concurrent_challenges''))"
    and "opt_data options = Some v"
  shows "fst (check_otp env st (Some v) counter window (Some options)) =
           (case fst (post_check env st' 1 options) of Inl e \<Rightarrow> Inl e | Inr u \<Rightarrow> Inr 1)"
  by (simp add: check_otp_fallback [OF assms] split: prod.splits sum.splits)

theorem check_otp_concurrent_challenge_witness:
  "fst (check_otp (example_env (Inr True)) example_state (Some ''123456'') None None
          (Some (example_options PNone))) = Inr 1
   \<and> 0 \<le> (1 :: int)"
  using check_otp_concurrent_challenge [where env = "example_env (Inr True)"
          and st = example_state and st' = example_state and res = "- 1" and v = "''123456''"
          and counter = None and window = None and options = "example_options PNone"]
  by (simp add: example_unlocked example_hotp example_concurrent example_data
        example_post_check example_g)

text \<open>
  C4 as the spec states it fails: the HOTP check returns \<open>-1\<close>, the configuration is on,
  the stored data equals the submitted OTP, the gateway raises on the post-check message,
  and \<open>check_otp\<close> raises instead of returning a value.
\<close>

theorem check_otp_concurrent_challenge_counterexample:
  "hotp_check_otp (example_env (Inl (Exception ''gateway down''))) example_state
      (Some ''123456'') None None (example_options PNone) = (Inr (- 1), example_state)
   \<and> is_true (example_env (Inl (Exception ''gateway down'')))
       (as_pyval (get_from_config (example_env (Inl (Exception ''gateway down'')))
          ''sms.concurrent_challenges''))
   \<and> safe_compare (opt_data (example_options PNone)) (Some ''123456'')
   \<and> fst (check_otp (example_env (Inl (Exception ''gateway down''))) example_state
            (Some ''123456'') None None (Some (example_options PNone)))
       = Inl (Exception ''gateway down'')"
  using check_otp_fallback [where env = "example_env (Inl (Exception ''gateway down''))"
          and st = example_state and st' = example_state and res = "- 1" and v = "''123456''"
          and counter = None and window = None and options = "example_options PNone"]
  by (simp add: example_unlocked example_post_check example_g example_hotp example_concurrent
        example_data safe_compare_def)

text \<open>
  C10. Whenever \<open>check_otp\<close> returns after the fallback was taken (the HOTP check was
  negative, the configuration is on, the stored data equals the submitted OTP), the value
  it returns is the constant 1, whatever the counter of the token is.
\<close>

theorem check_otp_fallback_value:
  assumes "hotp_check_otp env st (Some v) counter window options = (Inr res, st')"
    and "res < 0"
    and "is_true env (as_pyval (get_from_config env ''sms.concurrent_challenges''))"
    and "opt_data options = Some v"
    and "fst (check_otp env st (Some v) counter window (Some options)) = Inr r"
  shows "r = 1"
proof (cases "tok_locked st")
  case True
  then show ?thesis using assms(5) by (simp add: check_otp_def check_token_locked_def)
next
  case False
  show ?thesis
    using assms(5) check_otp_fallback [OF False assms(1,2,3,4)]
    by (auto split: prod.splits sum.splits)
qed

theorem check_otp_fallback_value_witness:
  "tok_count example_state = 57
   \<and> fst (check_otp (example_env (Inr True)) example_state (Some ''123456'') None None
          (Some (example_options PNone))) = Inr 1
   \<and> fst (check_otp (example_env (Inr True)) (example_state\<lparr>tok_count := 3\<rparr>)
          (Some ''123456'') None None (Some (example_options PNone))) = Inr 1"
proof -
  have u: "\<not> tok_locked (example_state\<lparr>tok_count := n\<rparr>)" for n
    by (simp add: example_state_def)
  have e: "\<exists>r. fst (check_otp (example_env (Inr True)) (example_state\<lparr>tok_count := n\<rparr>)
                  (Some ''123456'') None None (Some (example_options PNone))) = Inr r" for n
    using check_otp_fallback [where env = "example_env (Inr True)"
            and st = "example_state\<lparr>tok_count := n\<rparr>" and st' = "example_state\<lparr>tok_count := n\<rparr>"
            and res = "- 1" and v = "''123456''" and counter = None and window = None
            and options = "example_options PNone"]
    by (simp add: u example_hotp example_concurrent example_data example_post_check_count
          example_g)
  have v: "fst (check_otp (example_env (Inr True)) (example_state\<lparr>tok_count := n\<rparr>)
                  (Some ''123456'') None None (Some (example_options PNone))) = Inr 1" for n
  proof -
    obtain r where r: "fst (check_otp (example_env (Inr True)) (example_state\<lparr>tok_count := n\<rparr>)
                  (Some ''123456'') None None (Some (example_options PNone))) = Inr r"
      using e by blast
    have "r = 1"
      using check_otp_fallback_value [where env = "example_env (Inr True)"
              and st = "example_state\<lparr>tok_count := n\<rparr>" and st' = "example_state\<lparr>tok_count := n\<rparr>"
              and res = "- 1" and v = "''123456''" and counter = None and window = None
              and options = "example_options PNone" and r = r] r
      by (simp add: example_hotp example_concurrent example_data)
    then show ?thesis using r by simp
  qed
  show ?thesis using v [of 57] v [of 3] by (simp add: example_state_count) (simp add: example_state_def)
qed

end
